theory Spec2Isabelle
  imports Complex_Main
begin

section \<open>Arrays\<close>

text \<open>
  A numpy array is a shape together with a row-major buffer.  The rank is fixed by the
  type where the source fixes it: \<open>vol3\<close> is a 3-D volume (\<open>img\<close>, \<open>pred_vol\<close>),
  \<open>img2\<close> a 2-D slice, \<open>arr4\<close> the 4-D class-probability array.  The raw output of
  the segmentation model keeps its shape as a list (\<open>ndarray\<close>), because
  \<open>get_prediction_volume\<close> checks its rank at run time.
\<close>

datatype error =
    IndexError
  | ValueError string
  | CvError
  | LinAlgError
  | KeyError
  | FileNotFoundError
  | ModelError
  | RenderError

record 'a img2 =
  rows :: nat
  cols :: nat
  px :: "'a list"

record 'a vol3 =
  d0 :: nat
  d1 :: nat
  d2 :: nat
  vdata :: "'a list"

record 'a arr4 =
  n0 :: nat
  n1 :: nat
  n2 :: nat
  n3 :: nat
  adata :: "'a list"

record 'a ndarray =
  shape :: "nat list"
  buf :: "'a list"

definition at2 :: "'a img2 \<Rightarrow> nat \<Rightarrow> nat \<Rightarrow> 'a" where
  "at2 m i j = px m ! (i * cols m + j)"

definition at3 :: "'a vol3 \<Rightarrow> nat \<Rightarrow> nat \<Rightarrow> nat \<Rightarrow> 'a" where
  "at3 v i j k = vdata v ! ((i * d1 v + j) * d2 v + k)"

definition at4 :: "'a arr4 \<Rightarrow> nat \<Rightarrow> nat \<Rightarrow> nat \<Rightarrow> nat \<Rightarrow> 'a" where
  "at4 a s i j c = adata a ! (((s * n1 a + i) * n2 a + j) * n3 a + c)"

text \<open>Building an array of a given shape from its element function (row-major).\<close>

definition mk2 :: "nat \<Rightarrow> nat \<Rightarrow> (nat \<Rightarrow> nat \<Rightarrow> 'a) \<Rightarrow> 'a img2" where
  "mk2 h w f = \<lparr>rows = h, cols = w, px = map (\<lambda>n. f (n div w) (n mod w)) [0..<h * w]\<rparr>"

definition mk3 :: "nat \<Rightarrow> nat \<Rightarrow> nat \<Rightarrow> (nat \<Rightarrow> nat \<Rightarrow> nat \<Rightarrow> 'a) \<Rightarrow> 'a vol3" where
  "mk3 a b c f =
     \<lparr>d0 = a, d1 = b, d2 = c,
      vdata = map (\<lambda>n. f (n div (b * c)) ((n div c) mod b) (n mod c)) [0..<a * b * c]\<rparr>"

definition shape2 :: "'a img2 \<Rightarrow> nat \<times> nat" where
  "shape2 m = (rows m, cols m)"

definition shape3 :: "'a vol3 \<Rightarrow> nat \<times> nat \<times> nat" where
  "shape3 v = (d0 v, d1 v, d2 v)"

text \<open>\<open>ndarray.size\<close>: the product of the extents.\<close>

definition size3 :: "'a vol3 \<Rightarrow> nat" where
  "size3 v = d0 v * d1 v * d2 v"

text \<open>Well-formed arrays: the buffer holds exactly one element per index.\<close>

definition wf2 :: "'a img2 \<Rightarrow> bool" where
  "wf2 m = (length (px m) = rows m * cols m)"

definition wf3 :: "'a vol3 \<Rightarrow> bool" where
  "wf3 v = (length (vdata v) = d0 v * d1 v * d2 v)"

definition wf4 :: "'a arr4 \<Rightarrow> bool" where
  "wf4 a = (length (adata a) = n0 a * n1 a * n2 a * n3 a)"

section \<open>numpy and OpenCV primitives\<close>


text \<open>Indexing one axis of extent \<open>n\<close> with a Python integer: negative indices count
  from the end, anything else out of range raises \<open>IndexError\<close>.\<close>

definition py_index :: "nat \<Rightarrow> int \<Rightarrow> error + nat" where
  "py_index n i =
     (if 0 \<le> i \<and> i < int n then Inr (nat i)
      else if - int n \<le> i \<and> i < 0 then Inr (nat (int n + i))
      else Inl IndexError)"

text \<open>The three basic slices \<open>v[i, :, :]\<close>, \<open>v[:, j, :]\<close> and \<open>v[:, :, k]\<close>.\<close>

definition slice_ax0 :: "'a vol3 \<Rightarrow> nat \<Rightarrow> 'a img2" where
  "slice_ax0 v i = mk2 (d1 v) (d2 v) (\<lambda>j k. at3 v i j k)"

definition slice_ax1 :: "'a vol3 \<Rightarrow> nat \<Rightarrow> 'a img2" where
  "slice_ax1 v j = mk2 (d0 v) (d2 v) (\<lambda>i k. at3 v i j k)"

definition slice_ax2 :: "'a vol3 \<Rightarrow> nat \<Rightarrow> 'a img2" where
  "slice_ax2 v k = mk2 (d0 v) (d1 v) (\<lambda>i j. at3 v i j k)"

text \<open>\<open>np.rot90(m)\<close>: one counter-clockwise quarter turn, \<open>out[i, j] = m[j, w - 1 - i]\<close>.\<close>

definition rot90 :: "'a img2 \<Rightarrow> 'a img2" where
  "rot90 m = mk2 (cols m) (rows m) (\<lambda>i j. at2 m j (cols m - 1 - i))"

text \<open>
  \<open>cv2.resize(src, (dw, dh), interpolation=cv2.INTER_NEAREST)\<close>: OpenCV rejects an
  empty source and an empty destination size; otherwise destination pixel \<open>(y, x)\<close>
  copies source pixel \<open>(min (y * sh div dh) (sh - 1), min (x * sw div dw) (sw - 1))\<close>.
  OpenCV computes the scaled position in floating point; it is computed exactly here.
  The casts around the call (\<open>astype(np.float32)\<close>, \<open>astype(np.int16)\<close>) are exact
  on class labels and are not written out.
\<close>

definition cv2_resize_nearest :: "'a img2 \<Rightarrow> nat \<times> nat \<Rightarrow> error + 'a img2" where
  "cv2_resize_nearest src dsize =
     (case dsize of (dw, dh) \<Rightarrow>
        if rows src = 0 \<or> cols src = 0 \<or> dw = 0 \<or> dh = 0 then Inl CvError
        else Inr (mk2 dh dw
               (\<lambda>y x. at2 src (min (y * rows src div dh) (rows src - 1))
                               (min (x * cols src div dw) (cols src - 1)))))"

section \<open>Geometry and plane extraction (image_processing_helpers.py)\<close>

text \<open>The tail of \<open>extract_slice_by_plane\<close> (\<open># Ensure shapes match\<close>), which
  \<open>get_gif\<close> repeats inline.\<close>

definition ensure_shapes_match :: "'a img2 \<Rightarrow> 'b img2 \<Rightarrow> error + 'b img2" where
  "ensure_shapes_match slice_img slice_pred =
     (if shape2 slice_pred \<noteq> shape2 slice_img
      then cv2_resize_nearest slice_pred (cols slice_img, rows slice_img)
      else Inr slice_pred)"


text \<open>\<open>create_slicer_function\<close>: the number of slices along the plane's axis and the
  slicer used by the sweep; \<open>slicer i\<close> indexes both volumes at \<open>i\<close>.\<close>

definition create_slicer_function ::
  "'a vol3 \<Rightarrow> 'b vol3 \<Rightarrow> string \<Rightarrow> nat \<times> (nat \<Rightarrow> error + ('a img2 \<times> 'b img2))" where
  "create_slicer_function img pred_vol plane =
     (if plane = ''Axial'' then
        (d2 img,
         \<lambda>i. case py_index (d2 img) (int i) of Inl e \<Rightarrow> Inl e | Inr a \<Rightarrow>
              (case py_index (d2 pred_vol) (int i) of Inl e \<Rightarrow> Inl e | Inr b \<Rightarrow>
                 Inr (slice_ax2 img a, slice_ax2 pred_vol b)))
      else if plane = ''Sagittal'' then
        (d0 img,
         \<lambda>i. case py_index (d0 img) (int i) of Inl e \<Rightarrow> Inl e | Inr a \<Rightarrow>
              (case py_index (d0 pred_vol) (int i) of Inl e \<Rightarrow> Inl e | Inr b \<Rightarrow>
                 Inr (rot90 (slice_ax0 img a), rot90 (slice_ax0 pred_vol b))))
      else
        (d1 img,
         \<lambda>i. case py_index (d1 img) (int i) of Inl e \<Rightarrow> Inl e | Inr a \<Rightarrow>
              (case py_index (d1 pred_vol) (int i) of Inl e \<Rightarrow> Inl e | Inr b \<Rightarrow>
                 Inr (rot90 (slice_ax1 img a), rot90 (slice_ax1 pred_vol b)))))"

definition get_gif_animation_params :: "string \<Rightarrow> nat \<Rightarrow> nat \<times> nat" where
  "get_gif_animation_params plane num_slices =
     (if plane = ''Axial'' then (max 1 (num_slices div 60), 15)
      else (max 1 (num_slices div 100), 13))"

subsection \<open>Class filter\<close>

text \<open>
  Python's \<open>int(s)\<close> on a string, base 10: surrounding whitespace is stripped, one
  sign is allowed, then digits, with single underscores between digits.  Anything else
  raises \<open>ValueError\<close>.  (Characters are bytes here; non-ASCII digits are not covered.)
\<close>

definition is_py_space :: "char \<Rightarrow> bool" where
  "is_py_space c = (c = CHR '' '' \<or> (9 \<le> (of_char c :: nat) \<and> (of_char c :: nat) \<le> 13))"

definition is_digit :: "char \<Rightarrow> bool" where
  "is_digit c = (48 \<le> (of_char c :: nat) \<and> (of_char c :: nat) \<le> 57)"

definition digit_of :: "char \<Rightarrow> nat" where
  "digit_of c = of_char c - 48"

definition py_strip :: "string \<Rightarrow> string" where
  "py_strip s = rev (dropWhile is_py_space (rev (dropWhile is_py_space s)))"

fun digits_value :: "string \<Rightarrow> nat \<Rightarrow> nat option" where
  "digits_value [] acc = Some acc"
| "digits_value [c] acc = (if is_digit c then Some (10 * acc + digit_of c) else None)"
| "digits_value (c # d # ds) acc =
     (if is_digit c then digits_value (d # ds) (10 * acc + digit_of c)
      else if c = CHR ''_'' \<and> is_digit d then digits_value ds (10 * acc + digit_of d)
      else None)"

definition py_int :: "string \<Rightarrow> error + int" where
  "py_int s =
     (let t = py_strip s;
          neg = (case t of [] \<Rightarrow> False | c # _ \<Rightarrow> c = CHR ''-'');
          body = (case t of [] \<Rightarrow> [] | c # cs \<Rightarrow> if c = CHR ''-'' \<or> c = CHR ''+'' then cs else t)
      in case body of
           [] \<Rightarrow> Inl (ValueError ''invalid literal for int()'')
         | c # cs \<Rightarrow>
             if is_digit c then
               (case digits_value cs (digit_of c) of
                  None \<Rightarrow> Inl (ValueError ''invalid literal for int()'')
                | Some n \<Rightarrow> Inr (if neg then - int n else int n))
             else Inl (ValueError ''invalid literal for int()''))"

definition zeros_like :: "int img2 \<Rightarrow> int img2" where
  "zeros_like m = \<lparr>rows = rows m, cols = cols m, px = replicate (rows m * cols m) 0\<rparr>"

text \<open>\<open>np.where(pred_slice == class_value, pred_slice, 0)\<close>.\<close>

definition where_equal :: "int img2 \<Rightarrow> int \<Rightarrow> int img2" where
  "where_equal m class_value =
     \<lparr>rows = rows m, cols = cols m, px = map (\<lambda>v. if v = class_value then v else 0) (px m)\<rparr>"

definition filter_prediction_by_class :: "int img2 \<Rightarrow> string \<Rightarrow> error + int img2" where
  "filter_prediction_by_class pred_slice selected_class =
     (if selected_class = ''All'' then Inr pred_slice
      else if selected_class = ''None'' then Inr (zeros_like pred_slice)
      else case py_int selected_class of
             Inl e \<Rightarrow> Inl e
           | Inr class_value \<Rightarrow> Inr (where_equal pred_slice class_value))"

section \<open>Metrics (metrics_helpers.py)\<close>

text \<open>
  Quantities that the source holds in floating point are rationals here, and
  \<open>round(x, 2)\<close> is rounding to the nearest hundredth, ties to the even neighbour.
\<close>

definition round_half_even :: "rat \<Rightarrow> int" where
  "round_half_even x =
     (let f = \<lfloor>x\<rfloor>; r = x - of_int f
      in if r < 1 / 2 then f
         else if 1 / 2 < r then f + 1
         else if even f then f else f + 1)"

definition py_round2 :: "rat \<Rightarrow> rat" where
  "py_round2 x = of_int (round_half_even (x * 100)) / 100"

record metrics =
  voxel_count :: int
  volume_mm3 :: rat
  volume_cm3 :: rat
  percentage :: rat

text \<open>\<open>np.sum(mask)\<close> for a boolean mask given by a predicate on labels.\<close>

definition count_where :: "(int \<Rightarrow> bool) \<Rightarrow> int vol3 \<Rightarrow> nat" where
  "count_where P pred_vol = length (filter P (vdata pred_vol))"

definition metrics_of :: "nat \<Rightarrow> nat \<Rightarrow> rat \<Rightarrow> metrics" where
  "metrics_of voxels total_voxels voxel_volume_mm3 =
     (let vol_mm3 = of_nat voxels * voxel_volume_mm3;
          pct = (if total_voxels > 0 then of_nat voxels / of_nat total_voxels * 100 else 0)
      in \<lparr>voxel_count = int voxels,
          volume_mm3 = py_round2 vol_mm3,
          volume_cm3 = py_round2 (vol_mm3 / 1000),
          percentage = py_round2 pct\<rparr>)"

definition calculate_class_metrics :: "int vol3 \<Rightarrow> rat \<Rightarrow> (int \<rightharpoonup> metrics)" where
  "calculate_class_metrics pred_vol voxel_volume_mm3 =
     (let total_voxels = size3 pred_vol
      in foldl (\<lambda>class_metrics class_id.
                  class_metrics(class_id \<mapsto>
                    metrics_of (count_where (\<lambda>v. v = class_id) pred_vol)
                      total_voxels voxel_volume_mm3))
           Map.empty [1, 2, 3])"

definition calculate_total_tumor_metrics :: "int vol3 \<Rightarrow> rat \<Rightarrow> metrics" where
  "calculate_total_tumor_metrics pred_vol voxel_volume_mm3 =
     metrics_of (count_where (\<lambda>v. v > 0) pred_vol) (size3 pred_vol) voxel_volume_mm3"

section \<open>World to voxel coordinates (app.py)\<close>

















section \<open>Prediction volume (predict_seg.py, app.py)\<close>

text \<open>
  \<open>SESSION_STATE\<close> is a dictionary read with \<open>.get\<close>: a missing
  \<open>current_patient\<close> or \<open>pred_seg\<close> reads as \<open>None\<close>, a missing flag as
  \<open>False\<close>.
\<close>

record 'p session =
  current_patient :: "string option"
  pred_seg :: "'p ndarray option"
  patient_has_changed :: bool
  pred_can_be_displayed :: bool
  pred_gen_for_this_patient :: bool

text \<open>The process state: the session dictionary, and the log of the calls made to the
  segmentation model (one entry, the patient root, per call of
  \<open>predict_segmentation\<close>).\<close>

record 'p world =
  session_state :: "'p session"
  model_calls :: "string list"

text \<open>
  The collaborators outside the core.  \<open>predict_segmentation\<close> loads the patient's
  files and runs the model; it returns the raw class-probability array or raises.
  \<open>resize_predicted_seg\<close> (\<open>utils/img_processing.py\<close>) brings the raw array to the
  resolution of the data set and returns a 4-D array (documented in \<open>utils/gif.py\<close> as
  155 x 240 x 240 x 4).  \<open>patient_root_of\<close> is the path arithmetic
  \<open>os.path.join(p, os.path.basename(os.path.normpath(p)))\<close>.
\<close>

record 'p env =
  predict_segmentation :: "string \<Rightarrow> error + 'p ndarray"
  resize_predicted_seg :: "'p ndarray \<Rightarrow> error + 'p arr4"
  patient_root_of :: "string \<Rightarrow> string"

definition patient_has_changed_update_token :: "'p session \<Rightarrow> 'p session" where
  "patient_has_changed_update_token s =
     s\<lparr>patient_has_changed := True, pred_can_be_displayed := False,
       pred_gen_for_this_patient := False\<rparr>"

definition predict_btn_click ::
  "'p env \<Rightarrow> 'p world \<Rightarrow> string \<Rightarrow> (error + 'p ndarray option) \<times> 'p world" where
  "predict_btn_click env w patient_path =
     (if \<not> pred_gen_for_this_patient (session_state w) then
        (let w1 = w\<lparr>model_calls := model_calls w @ [patient_path]\<rparr>
         in case predict_segmentation env patient_path of
              Inl e \<Rightarrow> (Inl e, w1)
            | Inr predicted_seg \<Rightarrow>
                (let s = (session_state w1)
                           \<lparr>pred_seg := Some predicted_seg,
                            pred_can_be_displayed := True,
                            pred_gen_for_this_patient := True\<rparr>
                 in (Inr (pred_seg s), w1\<lparr>session_state := s\<rparr>)))
      else (Inr (pred_seg (session_state w)), w))"

text \<open>\<open>np.argmax\<close> of a sequence: the first index of a maximal element.\<close>

fun argmax_from :: "'p::linorder list \<Rightarrow> nat \<Rightarrow> nat \<Rightarrow> 'p \<Rightarrow> nat" where
  "argmax_from [] i best bv = best"
| "argmax_from (y # ys) i best bv =
     (if bv < y then argmax_from ys (Suc i) i y else argmax_from ys (Suc i) best bv)"

definition argmax_list :: "'p::linorder list \<Rightarrow> nat" where
  "argmax_list xs = (case xs of [] \<Rightarrow> 0 | x # ys \<Rightarrow> argmax_from ys 1 0 x)"

text \<open>\<open>astype(np.int16)\<close> on an integer: reduction to the 16-bit signed range.\<close>

definition astype_int16 :: "int \<Rightarrow> int" where
  "astype_int16 v = (v + 32768) mod 65536 - 32768"

text \<open>\<open>np.argmax(a, axis=3).astype(np.int16)\<close>; numpy raises \<open>ValueError\<close> when
  the reduced axis is empty.\<close>

definition np_argmax_axis3 :: "'p::linorder arr4 \<Rightarrow> error + int vol3" where
  "np_argmax_axis3 a =
     (if n3 a = 0 then Inl (ValueError ''attempt to get argmax of an empty sequence'')
      else Inr (mk3 (n0 a) (n1 a) (n2 a)
             (\<lambda>s i j. astype_int16 (int (argmax_list (map (\<lambda>c. at4 a s i j c) [0..<n3 a]))))))"

text \<open>\<open>np.moveaxis(v, 0, 2)\<close>: \<open>out[i, j, k] = v[k, i, j]\<close>.\<close>

definition moveaxis_0_2 :: "'a vol3 \<Rightarrow> 'a vol3" where
  "moveaxis_0_2 v = mk3 (d1 v) (d2 v) (d0 v) (\<lambda>i j k. at3 v k i j)"

definition np_zeros3 :: "nat \<times> nat \<times> nat \<Rightarrow> int vol3" where
  "np_zeros3 shp = (case shp of (a, b, c) \<Rightarrow> mk3 a b c (\<lambda>i j k. 0))"

text \<open>The assignment \<open>v[:, :, z] = layer\<close>.\<close>

definition set_layer :: "int vol3 \<Rightarrow> nat \<Rightarrow> int img2 \<Rightarrow> error + int vol3" where
  "set_layer v z layer =
     (if \<not> z < d2 v then Inl IndexError
      else if shape2 layer \<noteq> (d0 v, d1 v) then Inl (ValueError ''could not broadcast'')
      else Inr (mk3 (d0 v) (d1 v) (d2 v)
             (\<lambda>i j k. if k = z then at2 layer i j else at3 v i j k)))"

text \<open>The loop \<open>for z in range(limit)\<close> of \<open>get_prediction_volume\<close>, over the list of
  its indices.\<close>

fun resize_layers ::
  "int vol3 \<Rightarrow> nat \<times> nat \<times> nat \<Rightarrow> nat list \<Rightarrow> int vol3 \<Rightarrow> error + int vol3" where
  "resize_layers pred_vol reference_shape [] resized_pred = Inr resized_pred"
| "resize_layers pred_vol reference_shape (z # zs) resized_pred =
     (case py_index (d2 pred_vol) (int z) of Inl e \<Rightarrow> Inl e | Inr k \<Rightarrow>
      case cv2_resize_nearest (slice_ax2 pred_vol k)
             (fst (snd reference_shape), fst reference_shape) of
        Inl e \<Rightarrow> Inl e
      | Inr layer \<Rightarrow>
          (case set_layer resized_pred z layer of
             Inl e \<Rightarrow> Inl e
           | Inr resized_pred' \<Rightarrow>
               resize_layers pred_vol reference_shape zs resized_pred'))"

text \<open>Lines 324 to 342 of \<open>app.py\<close>: from the raw prediction to the volume.\<close>

definition prediction_volume_of_raw ::
  "('p::linorder) env \<Rightarrow> 'p ndarray \<Rightarrow> nat \<times> nat \<times> nat \<Rightarrow> error + int vol3" where
  "prediction_volume_of_raw env pred_raw reference_shape =
     (if length (shape pred_raw) \<noteq> 4 \<or> shape pred_raw ! 3 \<noteq> 4
      then Inl (ValueError ''Invalid prediction shape'')
      else case resize_predicted_seg env pred_raw of Inl e \<Rightarrow> Inl e | Inr pred_resized \<Rightarrow>
           case np_argmax_axis3 pred_resized of Inl e \<Rightarrow> Inl e | Inr pred_classes \<Rightarrow>
           (let pred_vol = moveaxis_0_2 pred_classes
            in if shape3 pred_vol \<noteq> reference_shape then
                 (let resized_pred = np_zeros3 reference_shape;
                      limit = min (d2 pred_vol) (snd (snd reference_shape))
                  in resize_layers pred_vol reference_shape [0..<limit] resized_pred)
               else Inr pred_vol))"

text \<open>Lines 315 to 318: the active-patient token.\<close>

definition note_active_patient :: "'p world \<Rightarrow> string \<Rightarrow> 'p world" where
  "note_active_patient w patient_path =
     (if current_patient (session_state w) \<noteq> Some patient_path
      then w\<lparr>session_state :=
               (patient_has_changed_update_token (session_state w))
                 \<lparr>current_patient := Some patient_path\<rparr>\<rparr>
      else w)"

definition get_prediction_volume ::
  "('p::linorder) env \<Rightarrow> 'p world \<Rightarrow> string \<Rightarrow> nat \<times> nat \<times> nat
     \<Rightarrow> (error + int vol3) \<times> 'p world" where
  "get_prediction_volume env w patient_path reference_shape =
     (let patient_root = patient_root_of env patient_path;
          w1 = note_active_patient w patient_path
      in case predict_btn_click env w1 patient_root of
           (Inl e, w2) \<Rightarrow> (Inl e, w2)
         | (Inr None, w2) \<Rightarrow> (Inl (ValueError ''Failed to generate prediction''), w2)
         | (Inr (Some pred_raw), w2) \<Rightarrow>
             (prediction_volume_of_raw env pred_raw reference_shape, w2))"

section \<open>Sweep (app.py, get_gif)\<close>

text \<open>
  The collaborators of the route: \<open>load_modality\<close> is \<open>get_modality_file\<close> followed
  by \<open>nib.load(...).get_fdata()\<close>; \<open>render_frame\<close> is the rendering of one slice
  with its overlay, drawn and resized to 256 x 256.  The encoded animation is kept as
  the list of its frames with the frame rate.
\<close>

record ('a, 'f) view_env =
  load_modality :: "string \<Rightarrow> string \<Rightarrow> error + 'a vol3"
  render_frame :: "'a img2 \<Rightarrow> int img2 \<Rightarrow> error + 'f"

datatype message = ErrorText error | NoFramesGenerated nat

text \<open>What the route answers: a JSON error with its status code, the animation, or an
  exception that no handler of the route catches.\<close>

datatype 'f response =
    JsonError nat message
  | JsonGif "'f list" nat
  | Unhandled error

text \<open>\<open>range(0, n, stride)\<close> for a positive stride.\<close>

definition py_range :: "nat \<Rightarrow> nat \<Rightarrow> nat list" where
  "py_range n stride = map (\<lambda>k. k * stride) [0..<(n + stride - 1) div stride]"

text \<open>The loop \<open>for idx in idxs\<close>; \<open>frames\<close> is the list built so far.\<close>

fun sweep_frames ::
  "('a, 'f) view_env \<Rightarrow> (nat \<Rightarrow> error + ('a img2 \<times> int img2)) \<Rightarrow> string \<Rightarrow> nat list
     \<Rightarrow> 'f list \<Rightarrow> error + 'f list" where
  "sweep_frames venv slicer selected_class [] frames = Inr frames"
| "sweep_frames venv slicer selected_class (idx # idxs) frames =
     (case slicer idx of Inl e \<Rightarrow> Inl e | Inr (slice_img, slice_pred0) \<Rightarrow>
      case ensure_shapes_match slice_img slice_pred0 of Inl e \<Rightarrow> Inl e | Inr slice_pred \<Rightarrow>
      case filter_prediction_by_class slice_pred selected_class of
        Inl e \<Rightarrow> Inl e
      | Inr filtered_pred \<Rightarrow>
          (case render_frame venv slice_img filtered_pred of
             Inl e \<Rightarrow> Inl e
           | Inr frame \<Rightarrow> sweep_frames venv slicer selected_class idxs (frames @ [frame])))"

definition get_gif ::
  "('p::linorder) env \<Rightarrow> ('a, 'f) view_env \<Rightarrow> 'p world \<Rightarrow> string \<Rightarrow> string \<Rightarrow> string
     \<Rightarrow> string \<Rightarrow> 'f response \<times> 'p world" where
  "get_gif env venv w patient_path modality plane selected_class =
     (case load_modality venv patient_path modality of
        Inl FileNotFoundError \<Rightarrow> (JsonError 404 (ErrorText FileNotFoundError), w)
      | Inl e \<Rightarrow> (Unhandled e, w)
      | Inr img \<Rightarrow>
          (case get_prediction_volume env w patient_path (shape3 img) of
             (Inl (ValueError m), w1) \<Rightarrow> (JsonError 500 (ErrorText (ValueError m)), w1)
           | (Inl e, w1) \<Rightarrow> (Unhandled e, w1)
           | (Inr pred_vol, w1) \<Rightarrow>
               (case create_slicer_function img pred_vol plane of (num_slices, slicer) \<Rightarrow>
                case get_gif_animation_params plane num_slices of (stride, fps) \<Rightarrow>
                  (let idxs = py_range num_slices stride
                   in case sweep_frames venv slicer selected_class idxs [] of
                        Inl e \<Rightarrow> (Unhandled e, w1)
                      | Inr frames \<Rightarrow>
                          if length frames = 0
                          then (JsonError 500 (NoFramesGenerated num_slices), w1)
                          else (JsonGif frames fps, w1)))))"

section \<open>Vocabulary of the specification\<close>

text \<open>
  The specification speaks of the slicing axis of a plane and of the slice taken along
  it: Axial selects along the third axis without rotation, Sagittal along the first and
  Coronal (any other plane string) along the second, both rotated by a quarter turn.
  The properties below relate the functions of the source to these.
\<close>

definition plane_extent :: "string \<Rightarrow> 'a vol3 \<Rightarrow> nat" where
  "plane_extent plane v =
     (if plane = ''Axial'' then d2 v else if plane = ''Sagittal'' then d0 v else d1 v)"

definition plane_slice :: "string \<Rightarrow> 'a vol3 \<Rightarrow> nat \<Rightarrow> 'a img2" where
  "plane_slice plane v k =
     (if plane = ''Axial'' then slice_ax2 v k
      else if plane = ''Sagittal'' then rot90 (slice_ax0 v k)
      else rot90 (slice_ax1 v k))"




text \<open>A canonical prediction volume carries only the four class labels.\<close>

definition labels_in_range :: "int vol3 \<Rightarrow> bool" where
  "labels_in_range v = (\<forall>x \<in> set (vdata v). x \<in> {0, 1, 2, 3})"

definition slice_ex :: "int img2" where
  "slice_ex = \<lparr>rows = 2, cols = 3, px = [0, 1, 2, 3, 2, 1]\<rparr>"

text \<open>The scenario of the specification: a 240 x 240 x 155 volume in which exactly
  1000 voxels carry label 2.\<close>

definition scenario_vol :: "int vol3" where
  "scenario_vol = \<lparr>d0 = 240, d1 = 240, d2 = 155,
       vdata = replicate 1000 2 @ replicate 8927000 0\<rparr>"




text \<open>The class labels, and arrays that are well formed and hold only values of a
  given set.\<close>

definition class_labels :: "int set" where
  "class_labels = {0, 1, 2, 3}"

definition labelled2 :: "int set \<Rightarrow> int img2 \<Rightarrow> bool" where
  "labelled2 S m = (wf2 m \<and> set (px m) \<subseteq> S)"

definition labelled3 :: "int set \<Rightarrow> int vol3 \<Rightarrow> bool" where
  "labelled3 S v = (wf3 v \<and> set (vdata v) \<subseteq> S)"

text \<open>
  A small instance of the collaborators: the model returns a 1 x 2 x 2 x 4 array whose
  four voxels favour classes 0, 1, 2 and 3; the resize step keeps the array as it is.
  \<open>env_bad_ex\<close> has a model that returns a 2 x 2 array.  \<open>world0\<close> is the state of
  a fresh process, \<open>world1\<close> the state after the first request for patient \<open>P1\<close>.
\<close>

definition reshape4 :: "'p ndarray \<Rightarrow> error + 'p arr4" where
  "reshape4 r =
     (case shape r of
        [a, b, c, d] \<Rightarrow> Inr \<lparr>n0 = a, n1 = b, n2 = c, n3 = d, adata = buf r\<rparr>
      | _ \<Rightarrow> Inl (ValueError ''not a 4-D array''))"

definition raw_ex :: "rat ndarray" where
  "raw_ex = \<lparr>shape = [1, 2, 2, 4],
             buf = [9, 1, 0, 0,  1, 9, 0, 0,  0, 1, 9, 0,  0, 0, 1, 9]\<rparr>"

definition env_ex :: "rat env" where
  "env_ex = \<lparr>predict_segmentation = (\<lambda>p. Inr raw_ex),
             resize_predicted_seg = reshape4,
             patient_root_of = (\<lambda>p. p @ ''/'' @ p)\<rparr>"

definition session0 :: "rat session" where
  "session0 = \<lparr>current_patient = None, pred_seg = None, patient_has_changed = False,
               pred_can_be_displayed = False, pred_gen_for_this_patient = False\<rparr>"

definition world0 :: "rat world" where
  "world0 = \<lparr>session_state = session0, model_calls = []\<rparr>"

definition env_bad_ex :: "rat env" where
  "env_bad_ex = env_ex\<lparr>predict_segmentation := (\<lambda>p. Inr \<lparr>shape = [2, 2], buf = [1, 2, 3, 4]\<rparr>)\<rparr>"

definition world1 :: "rat world" where
  "world1 = \<lparr>session_state =
               \<lparr>current_patient = Some ''P1'', pred_seg = Some raw_ex,
                patient_has_changed = True, pred_can_be_displayed = True,
                pred_gen_for_this_patient = True\<rparr>,
             model_calls = [''P1/P1'']\<rparr>"

text \<open>A view environment whose loader returns a 2 x 2 x 3 volume and whose renderer
  returns the labels of the slice; and one whose volume has no axial slice.\<close>

definition venv_ex :: "(rat, int list) view_env" where
  "venv_ex = \<lparr>load_modality = (\<lambda>p m. Inr (mk3 2 2 3 (\<lambda>i j k. of_nat (i + j + k)))),
              render_frame = (\<lambda>a b. Inr (px b))\<rparr>"

definition venv_flat_ex :: "(rat, int list) view_env" where
  "venv_flat_ex = venv_ex\<lparr>load_modality := (\<lambda>p m. Inr (mk3 2 2 0 (\<lambda>i j k. 0)))\<rparr>"

section \<open>Properties\<close>

subsection \<open>Arrays and indices\<close>

lemma rows_mk2 [simp]: "rows (mk2 h w f) = h"
  by (simp add: mk2_def)

lemma cols_mk2 [simp]: "cols (mk2 h w f) = w"
  by (simp add: mk2_def)

lemma wf2_mk2 [simp]: "wf2 (mk2 h w f)"
  by (simp add: wf2_def mk2_def)

lemma flat_index2: "i < h \<Longrightarrow> j < w \<Longrightarrow> i * w + j < h * (w::nat)"
proof -
  assume a: "i < h" "j < w"
  have "i * w + j < i * w + w" using a by simp
  also have "\<dots> = Suc i * w" by simp
  also have "\<dots> \<le> h * w" using a by (intro mult_le_mono1) simp
  finally show ?thesis .
qed





subsection \<open>Slice extraction\<close>

lemma shape2_plane_slice:
  "shape2 (plane_slice plane v k) =
     (if plane = ''Axial'' then (d0 v, d1 v)
      else if plane = ''Sagittal'' then (d2 v, d1 v) else (d2 v, d0 v))"
  by (simp add: plane_slice_def shape2_def slice_ax0_def slice_ax1_def slice_ax2_def rot90_def)











subsection \<open>Class filter\<close>

lemma py_int_2: "py_int ''2'' = Inr 2"
  by (simp add: py_int_def py_strip_def is_py_space_def is_digit_def digit_of_def)

lemma py_int_3: "py_int ''3'' = Inr 3"
  by (simp add: py_int_def py_strip_def is_py_space_def is_digit_def digit_of_def)

lemma filter_specific:
  assumes "s \<noteq> ''All''" "s \<noteq> ''None''" "py_int s = Inr c"
  shows "filter_prediction_by_class p s = Inr (where_equal p c)"
  using assms by (simp add: filter_prediction_by_class_def)

lemma where_equal_props:
  "shape2 (where_equal p c) = shape2 p \<and>
   px (where_equal p c) = map (\<lambda>v. if v = c then c else 0) (px p) \<and>
   set (px (where_equal p c)) \<subseteq> {0, c}"
  by (auto simp add: where_equal_def shape2_def)

text \<open>
  C6 (filter correctness).  For every prediction slice, the filter \<open>None\<close> returns
  the all-zero array of the same shape, the filter \<open>All\<close> returns the slice itself,
  and the filter \<open>2\<close> returns an array of the same shape that keeps every 2 and sets
  every other entry to 0, so it holds only zeros and twos.  The same holds for every
  other selection that \<open>int()\<close> reads as a number \<open>c\<close>.
\<close>

theorem filter_prediction_by_class_correct:
  "filter_prediction_by_class p ''None'' = Inr (zeros_like p) \<and>
   shape2 (zeros_like p) = shape2 p \<and>
   px (zeros_like p) = replicate (rows p * cols p) 0 \<and>
   filter_prediction_by_class p ''All'' = Inr p \<and>
   (\<exists>r. filter_prediction_by_class p ''2'' = Inr r \<and> shape2 r = shape2 p \<and>
        px r = map (\<lambda>v. if v = 2 then 2 else 0) (px p) \<and> set (px r) \<subseteq> {0, 2}) \<and>
   (\<forall>s c. s \<noteq> ''All'' \<and> s \<noteq> ''None'' \<and> py_int s = Inr c \<longrightarrow>
      (\<exists>r. filter_prediction_by_class p s = Inr r \<and> shape2 r = shape2 p \<and>
           px r = map (\<lambda>v. if v = c then c else 0) (px p) \<and> set (px r) \<subseteq> {0, c}))"
proof (intro conjI allI impI)
  show "filter_prediction_by_class p ''None'' = Inr (zeros_like p)"
    by (simp add: filter_prediction_by_class_def)
  show "shape2 (zeros_like p) = shape2 p"
    by (simp add: zeros_like_def shape2_def)
  show "px (zeros_like p) = replicate (rows p * cols p) 0"
    by (simp add: zeros_like_def)
  show "filter_prediction_by_class p ''All'' = Inr p"
    by (simp add: filter_prediction_by_class_def)
  have "filter_prediction_by_class p ''2'' = Inr (where_equal p 2)"
    by (rule filter_specific) (simp_all add: py_int_2)
  then show "\<exists>r. filter_prediction_by_class p ''2'' = Inr r \<and> shape2 r = shape2 p \<and>
        px r = map (\<lambda>v. if v = 2 then 2 else 0) (px p) \<and> set (px r) \<subseteq> {0, 2}"
    using where_equal_props [of p 2] by blast
next
  fix s c
  assume "s \<noteq> ''All'' \<and> s \<noteq> ''None'' \<and> py_int s = Inr c"
  then have "filter_prediction_by_class p s = Inr (where_equal p c)"
    by (simp add: filter_specific)
  then show "\<exists>r. filter_prediction_by_class p s = Inr r \<and> shape2 r = shape2 p \<and>
           px r = map (\<lambda>v. if v = c then c else 0) (px p) \<and> set (px r) \<subseteq> {0, c}"
    using where_equal_props [of p c] by blast
qed

theorem filter_prediction_by_class_correct_witness:
  "filter_prediction_by_class slice_ex ''3'' = Inr \<lparr>rows = 2, cols = 3, px = [0, 0, 0, 3, 0, 0]\<rparr> \<and>
   filter_prediction_by_class slice_ex ''2'' = Inr \<lparr>rows = 2, cols = 3, px = [0, 0, 2, 0, 2, 0]\<rparr> \<and>
   filter_prediction_by_class slice_ex ''None'' = Inr \<lparr>rows = 2, cols = 3, px = [0, 0, 0, 0, 0, 0]\<rparr> \<and>
   filter_prediction_by_class slice_ex ''All'' = Inr slice_ex"
proof -
  have "''3'' \<noteq> ''All'' \<and> ''3'' \<noteq> ''None'' \<and> py_int ''3'' = Inr 3"
    by (simp add: py_int_3)
  with filter_prediction_by_class_correct [of slice_ex]
  obtain r where r: "filter_prediction_by_class slice_ex ''3'' = Inr r"
     "shape2 r = shape2 slice_ex" "px r = map (\<lambda>v. if v = 3 then 3 else 0) (px slice_ex)"
    by blast
  have "r = \<lparr>rows = 2, cols = 3, px = [0, 0, 0, 3, 0, 0]\<rparr>"
    using r(2,3) by (cases r) (simp add: shape2_def slice_ex_def)
  with r(1) have a: "filter_prediction_by_class slice_ex ''3''
      = Inr \<lparr>rows = 2, cols = 3, px = [0, 0, 0, 3, 0, 0]\<rparr>" by simp
  from filter_prediction_by_class_correct [of slice_ex]
  obtain r2 where r2: "filter_prediction_by_class slice_ex ''2'' = Inr r2"
     "shape2 r2 = shape2 slice_ex" "px r2 = map (\<lambda>v. if v = 2 then 2 else 0) (px slice_ex)"
    by blast
  have "r2 = \<lparr>rows = 2, cols = 3, px = [0, 0, 2, 0, 2, 0]\<rparr>"
    using r2(2,3) by (cases r2) (simp add: shape2_def slice_ex_def)
  with r2(1) have b: "filter_prediction_by_class slice_ex ''2''
      = Inr \<lparr>rows = 2, cols = 3, px = [0, 0, 2, 0, 2, 0]\<rparr>" by simp
  have c: "filter_prediction_by_class slice_ex ''None''
      = Inr \<lparr>rows = 2, cols = 3, px = [0, 0, 0, 0, 0, 0]\<rparr>"
    using filter_prediction_by_class_correct [of slice_ex]
    by (simp add: zeros_like_def slice_ex_def numeral_eq_Suc)
  show ?thesis
    using a b c filter_prediction_by_class_correct [of slice_ex] by simp
qed


subsection \<open>Metrics\<close>

lemma class_metrics_lookup:
  "calculate_class_metrics v vv c =
     (if c \<in> {1, 2, 3}
      then Some (metrics_of (count_where (\<lambda>x. x = c) v) (size3 v) vv) else None)"
  by (simp add: calculate_class_metrics_def Let_def)

lemma count_partition:
  "\<forall>x \<in> set xs. x \<in> {0, 1, 2, 3::int} \<Longrightarrow>
   length (filter (\<lambda>x. x = 1) xs) + length (filter (\<lambda>x. x = 2) xs)
     + length (filter (\<lambda>x. x = 3) xs) = length (filter (\<lambda>x. x > 0) xs)"
  by (induction xs) auto

text \<open>
  C4 (metrics consistency).  For a prediction volume whose labels are all among 0, 1, 2
  and 3, and every voxel volume, the per-class table has entries for classes 1, 2 and 3,
  and their voxel counts add up to the voxel count of the total-tumor metrics.
\<close>

theorem metrics_consistency:
  assumes "labels_in_range pred_vol"
  shows "\<exists>m1 m2 m3.
     calculate_class_metrics pred_vol voxel_volume_mm3 1 = Some m1 \<and>
     calculate_class_metrics pred_vol voxel_volume_mm3 2 = Some m2 \<and>
     calculate_class_metrics pred_vol voxel_volume_mm3 3 = Some m3 \<and>
     voxel_count m1 + voxel_count m2 + voxel_count m3
       = voxel_count (calculate_total_tumor_metrics pred_vol voxel_volume_mm3)"
proof -
  have "int (count_where (\<lambda>x. x = 1) pred_vol) + int (count_where (\<lambda>x. x = 2) pred_vol)
        + int (count_where (\<lambda>x. x = 3) pred_vol) = int (count_where (\<lambda>x. x > 0) pred_vol)"
    using count_partition [of "vdata pred_vol"] assms
    unfolding count_where_def labels_in_range_def by linarith
  then show ?thesis
    by (simp add: class_metrics_lookup calculate_total_tumor_metrics_def metrics_of_def Let_def)
qed




lemma round_half_even_of_int [simp]: "round_half_even (of_int n) = n"
  by (simp add: round_half_even_def)

lemma py_round2_0 [simp]: "py_round2 0 = 0"
  using round_half_even_of_int [of 0] by (simp add: py_round2_def)






theorem metrics_consistency_witness:
  "labels_in_range scenario_vol \<and>
   (\<exists>m1 m2 m3.
      calculate_class_metrics scenario_vol 1 1 = Some m1 \<and>
      calculate_class_metrics scenario_vol 1 2 = Some m2 \<and>
      calculate_class_metrics scenario_vol 1 3 = Some m3 \<and>
      voxel_count m1 + voxel_count m2 + voxel_count m3 = 1000 \<and>
      voxel_count (calculate_total_tumor_metrics scenario_vol 1) = 1000)"
proof -
  have l: "labels_in_range scenario_vol"
    by (simp add: labels_in_range_def scenario_vol_def)
  have t: "voxel_count (calculate_total_tumor_metrics scenario_vol 1) = 1000"
    by (simp add: calculate_total_tumor_metrics_def metrics_of_def Let_def count_where_def
          scenario_vol_def)
  from metrics_consistency [OF l, of 1] show ?thesis
    using l t by auto
qed




subsection \<open>World to voxel\<close>



















subsection \<open>Prediction cache\<close>

lemma predict_btn_click_cached:
  assumes "pred_gen_for_this_patient (session_state w)"
  shows "predict_btn_click env w proot = (Inr (pred_seg (session_state w)), w)"
  using assms by (simp add: predict_btn_click_def)

lemma predict_btn_click_fresh:
  assumes "\<not> pred_gen_for_this_patient (session_state w)"
  shows "predict_btn_click env w proot =
     (case predict_segmentation env proot of
        Inl e \<Rightarrow> (Inl e, w\<lparr>model_calls := model_calls w @ [proot]\<rparr>)
      | Inr seg \<Rightarrow>
          (Inr (Some seg),
           w\<lparr>model_calls := model_calls w @ [proot],
             session_state := (session_state w)
               \<lparr>pred_seg := Some seg, pred_can_be_displayed := True,
                pred_gen_for_this_patient := True\<rparr>\<rparr>))"
  using assms by (simp add: predict_btn_click_def Let_def split: sum.splits)

lemma predict_btn_click_success:
  assumes "predict_btn_click env w proot = (Inr (Some raw), w')"
  shows "pred_gen_for_this_patient (session_state w') \<and> pred_seg (session_state w') = Some raw \<and>
         current_patient (session_state w') = current_patient (session_state w) \<and>
         patient_has_changed (session_state w') = patient_has_changed (session_state w) \<and>
         (model_calls w' = model_calls w \<or> model_calls w' = model_calls w @ [proot])"
proof (cases "pred_gen_for_this_patient (session_state w)")
  case True
  with assms show ?thesis by (auto simp add: predict_btn_click_cached)
next
  case False
  with assms show ?thesis
    by (auto simp add: predict_btn_click_fresh split: sum.splits)
qed

lemma note_active_patient_same:
  "current_patient (session_state w) = Some p \<Longrightarrow> note_active_patient w p = w"
  by (simp add: note_active_patient_def)

lemma note_active_patient_props:
  "current_patient (session_state (note_active_patient w p)) = Some p \<and>
   model_calls (note_active_patient w p) = model_calls w"
  by (simp add: note_active_patient_def)

lemma note_active_patient_switch:
  "current_patient (session_state w) \<noteq> Some q \<Longrightarrow>
   \<not> pred_gen_for_this_patient (session_state (note_active_patient w q)) \<and>
   patient_has_changed (session_state (note_active_patient w q)) \<and>
   \<not> pred_can_be_displayed (session_state (note_active_patient w q))"
  by (simp add: note_active_patient_def patient_has_changed_update_token_def)

lemma get_prediction_volume_success:
  assumes "get_prediction_volume env w p ref = (Inr v, w1)"
  shows "\<exists>raw. predict_btn_click env (note_active_patient w p) (patient_root_of env p)
            = (Inr (Some raw), w1) \<and>
          prediction_volume_of_raw env raw ref = Inr v"
  using assms
  by (auto simp add: get_prediction_volume_def Let_def split: prod.splits sum.splits option.splits)

lemma get_prediction_volume_switch:
  assumes "current_patient (session_state w) \<noteq> Some q"
    and "get_prediction_volume env w q ref = (r, w2)"
  shows "model_calls w2 = model_calls w @ [patient_root_of env q] \<and>
         current_patient (session_state w2) = Some q \<and>
         patient_has_changed (session_state w2)"
proof -
  let ?w = "note_active_patient w q"
  have f: "\<not> pred_gen_for_this_patient (session_state ?w)"
    and h: "patient_has_changed (session_state ?w)"
    using note_active_patient_switch [OF assms(1)] by simp_all
  show ?thesis
    using assms(2) h note_active_patient_props [of w q]
    by (auto simp add: get_prediction_volume_def Let_def predict_btn_click_fresh [OF f]
          split: prod.splits sum.splits option.splits)
qed

text \<open>
  C3 (idempotence).  Suppose a request for patient \<open>p\<close> returns a volume \<open>v\<close> and
  leaves the state \<open>w1\<close>.  Then the same request repeated in \<open>w1\<close> returns the same
  volume and leaves \<open>w1\<close> unchanged, so it calls the model not at all, and the first
  request called it at most once.  Any request for \<open>p\<close> in \<open>w1\<close>, whatever its
  reference shape, leaves the state (and the log of model calls) unchanged.  A request
  for a different patient \<open>q\<close> in \<open>w1\<close> calls the model exactly once, on \<open>q\<close>,
  makes \<open>q\<close> the active patient and sets the patient-changed flag.
\<close>

theorem prediction_cached_per_patient:
  assumes "get_prediction_volume env w p ref = (Inr v, w1)"
  shows "get_prediction_volume env w1 p ref = (Inr v, w1) \<and>
     (model_calls w1 = model_calls w \<or> model_calls w1 = model_calls w @ [patient_root_of env p]) \<and>
     current_patient (session_state w1) = Some p \<and>
     (\<forall>q ref' r w2. q \<noteq> p \<and> get_prediction_volume env w1 q ref' = (r, w2) \<longrightarrow>
        model_calls w2 = model_calls w1 @ [patient_root_of env q] \<and>
        current_patient (session_state w2) = Some q \<and>
        patient_has_changed (session_state w2)) \<and>
     (\<forall>ref'. snd (get_prediction_volume env w1 p ref') = w1)"
proof -
  from get_prediction_volume_success [OF assms] obtain raw where
    click: "predict_btn_click env (note_active_patient w p) (patient_root_of env p)
              = (Inr (Some raw), w1)"
    and vol: "prediction_volume_of_raw env raw ref = Inr v"
    by blast
  from predict_btn_click_success [OF click] note_active_patient_props [of w p]
  have gen: "pred_gen_for_this_patient (session_state w1)"
    and seg: "pred_seg (session_state w1) = Some raw"
    and cur: "current_patient (session_state w1) = Some p"
    and calls: "model_calls w1 = model_calls w \<or>
                model_calls w1 = model_calls w @ [patient_root_of env p]"
    by auto
  have again: "get_prediction_volume env w1 p ref = (Inr v, w1)"
    using vol seg
    by (simp add: get_prediction_volume_def Let_def note_active_patient_same [OF cur]
          predict_btn_click_cached [OF gen])
  have switch: "\<forall>q ref' r w2. q \<noteq> p \<and> get_prediction_volume env w1 q ref' = (r, w2) \<longrightarrow>
        model_calls w2 = model_calls w1 @ [patient_root_of env q] \<and>
        current_patient (session_state w2) = Some q \<and>
        patient_has_changed (session_state w2)"
  proof (intro allI impI)
    fix q ref' r w2
    assume a: "q \<noteq> p \<and> get_prediction_volume env w1 q ref' = (r, w2)"
    then have "current_patient (session_state w1) \<noteq> Some q" using cur by auto
    from get_prediction_volume_switch [OF this] a
    show "model_calls w2 = model_calls w1 @ [patient_root_of env q] \<and>
        current_patient (session_state w2) = Some q \<and>
        patient_has_changed (session_state w2)" by blast
  qed
  have frame: "\<forall>ref'. snd (get_prediction_volume env w1 p ref') = w1"
    using seg
    by (simp add: get_prediction_volume_def Let_def note_active_patient_same [OF cur]
          predict_btn_click_cached [OF gen])
  show ?thesis using again calls cur switch frame by blast
qed

subsection \<open>From the raw prediction to the volume\<close>

lemma labelled3_labels_in_range: "labelled3 class_labels v \<Longrightarrow> labels_in_range v"
  by (auto simp add: labelled3_def labels_in_range_def class_labels_def)

lemma flat_index3:
  assumes "i < a" "j < b" "k < c"
  shows "(i * b + j) * c + k < a * b * (c::nat)"
  using flat_index2 [OF flat_index2 [OF assms(1,2)] assms(3)] .

lemma in_set_mk2:
  assumes "x \<in> set (px (mk2 h w f))"
  shows "\<exists>i<h. \<exists>j<w. x = f i j"
proof -
  from assms obtain n where n: "n < h * w" "x = f (n div w) (n mod w)"
    by (auto simp add: mk2_def)
  then have "0 < w" by (cases w) simp_all
  moreover have "n div w < h" using n(1) by (simp add: less_mult_imp_div_less)
  moreover have "n mod w < w" using \<open>0 < w\<close> by simp
  ultimately show ?thesis using n(2) by blast
qed

lemma in_set_mk3:
  assumes "x \<in> set (vdata (mk3 a b c f))"
  shows "\<exists>i<a. \<exists>j<b. \<exists>k<c. x = f i j k"
proof -
  from assms obtain n where n: "n < a * b * c"
      "x = f (n div (b * c)) ((n div c) mod b) (n mod c)"
    by (auto simp add: mk3_def)
  then have c: "0 < c" and b: "0 < b" by (cases c; cases b; simp)+
  have "n < a * (b * c)" using n(1) by (simp add: mult.assoc)
  then have "n div (b * c) < a" by (simp add: less_mult_imp_div_less)
  moreover have "(n div c) mod b < b" "n mod c < c" using b c by simp_all
  ultimately show ?thesis using n(2) by blast
qed

lemma wf3_mk3 [simp]: "wf3 (mk3 a b c f)"
  by (simp add: wf3_def mk3_def)

lemma dims_mk3 [simp]:
  "d0 (mk3 a b c f) = a" "d1 (mk3 a b c f) = b" "d2 (mk3 a b c f) = c"
  by (simp_all add: mk3_def)

lemma labelled3_mk3:
  assumes "\<And>i j k. i < a \<Longrightarrow> j < b \<Longrightarrow> k < c \<Longrightarrow> f i j k \<in> S"
  shows "labelled3 S (mk3 a b c f)"
  unfolding labelled3_def
  using assms in_set_mk3 [of _ a b c f] by (metis subsetI wf3_mk3)

lemma labelled2_mk2:
  assumes "\<And>i j. i < h \<Longrightarrow> j < w \<Longrightarrow> f i j \<in> S"
  shows "labelled2 S (mk2 h w f)"
  unfolding labelled2_def
  using assms in_set_mk2 [of _ h w f] by (metis subsetI wf2_mk2)

lemma labelled3_at3:
  assumes "labelled3 S v" "i < d0 v" "j < d1 v" "k < d2 v"
  shows "at3 v i j k \<in> S"
proof -
  have "(i * d1 v + j) * d2 v + k < length (vdata v)"
    using assms flat_index3 [of i "d0 v" j "d1 v" k "d2 v"] by (simp add: labelled3_def wf3_def)
  then have "at3 v i j k \<in> set (vdata v)" by (simp add: at3_def)
  then show ?thesis using assms(1) by (auto simp add: labelled3_def)
qed

lemma labelled2_at2:
  assumes "labelled2 S m" "i < rows m" "j < cols m"
  shows "at2 m i j \<in> S"
proof -
  have "i * cols m + j < length (px m)"
    using assms flat_index2 [of i "rows m" j "cols m"] by (simp add: labelled2_def wf2_def)
  then have "at2 m i j \<in> set (px m)" by (simp add: at2_def)
  then show ?thesis using assms(1) by (auto simp add: labelled2_def)
qed

lemma argmax_from_bound:
  "best < i \<Longrightarrow> argmax_from ys i best bv < i + length ys"
proof (induction ys arbitrary: i best bv)
  case Nil
  then show ?case by simp
next
  case (Cons y ys)
  have "argmax_from ys (Suc i) i y < Suc i + length ys" by (rule Cons.IH) simp
  moreover have "argmax_from ys (Suc i) best bv < Suc i + length ys"
    using Cons.prems by (intro Cons.IH) simp
  ultimately show ?case by simp
qed

lemma argmax_list_bound: "xs \<noteq> [] \<Longrightarrow> argmax_list xs < length xs"
  using argmax_from_bound [of 0 1] by (cases xs) (simp_all add: argmax_list_def)

lemma astype_int16_small: "0 \<le> v \<Longrightarrow> v < 32768 \<Longrightarrow> astype_int16 v = v"
  by (simp add: astype_int16_def)

lemma np_argmax_axis3_labelled:
  assumes "np_argmax_axis3 a = Inr pc" "\<And>k. k < n3 a \<Longrightarrow> astype_int16 (int k) \<in> S"
  shows "labelled3 S pc \<and> shape3 pc = (n0 a, n1 a, n2 a)"
proof -
  have n: "n3 a \<noteq> 0"
    and pc: "pc = mk3 (n0 a) (n1 a) (n2 a)
      (\<lambda>s i j. astype_int16 (int (argmax_list (map (\<lambda>c. at4 a s i j c) [0..<n3 a]))))"
    using assms(1) by (auto simp add: np_argmax_axis3_def split: if_splits)
  have "astype_int16 (int (argmax_list (map (\<lambda>c. at4 a s i j c) [0..<n3 a]))) \<in> S"
    for s i j
    using argmax_list_bound [of "map (\<lambda>c. at4 a s i j c) [0..<n3 a]"] n
    by (intro assms(2)) simp
  then show ?thesis unfolding pc by (simp add: labelled3_mk3 shape3_def)
qed

lemma moveaxis_labelled:
  assumes "labelled3 S v"
  shows "labelled3 S (moveaxis_0_2 v)"
  unfolding moveaxis_0_2_def
  using assms by (intro labelled3_mk3 labelled3_at3)

lemma slice_ax2_labelled:
  assumes "labelled3 S v" "k < d2 v"
  shows "labelled2 S (slice_ax2 v k)"
  unfolding slice_ax2_def
  using assms by (intro labelled2_mk2 labelled3_at3)

lemma cv2_resize_labelled:
  assumes "labelled2 S src" "cv2_resize_nearest src (dw, dh) = Inr r"
  shows "labelled2 S r \<and> shape2 r = (dh, dw)"
proof -
  from assms(2) have pos: "0 < rows src" "0 < cols src"
    and r: "r = mk2 dh dw (\<lambda>y x. at2 src (min (y * rows src div dh) (rows src - 1))
                               (min (x * cols src div dw) (cols src - 1)))"
    by (auto simp add: cv2_resize_nearest_def split: if_splits)
  show ?thesis unfolding r
    using pos assms(1) by (auto intro!: labelled2_mk2 labelled2_at2 simp add: shape2_def)
qed

lemma set_layer_labelled:
  assumes "labelled3 S acc" "labelled2 S layer" "set_layer acc z layer = Inr acc'"
  shows "labelled3 S acc' \<and> shape3 acc' = shape3 acc"
proof -
  from assms(3) have sh: "rows layer = d0 acc" "cols layer = d1 acc"
    and a: "acc' = mk3 (d0 acc) (d1 acc) (d2 acc)
             (\<lambda>i j k. if k = z then at2 layer i j else at3 acc i j k)"
    by (auto simp add: set_layer_def shape2_def split: if_splits)
  show ?thesis unfolding a
    using assms(1,2) sh
    by (auto intro!: labelled3_mk3 simp add: shape3_def labelled2_at2 labelled3_at3)
qed

lemma py_index_result: "py_index n (int z) = Inr k \<Longrightarrow> k = z \<and> z < n"
  by (auto simp add: py_index_def split: if_splits)

lemma resize_layers_labelled:
  assumes "labelled3 S pred_vol" "labelled3 S acc" "resize_layers pred_vol ref zs acc = Inr r"
  shows "labelled3 S r \<and> shape3 r = shape3 acc"
  using assms(2,3)
proof (induction zs arbitrary: acc)
  case Nil
  then show ?case by simp
next
  case (Cons z zs)
  from Cons.prems(2) obtain k layer acc' where
    k: "py_index (d2 pred_vol) (int z) = Inr k"
    and l: "cv2_resize_nearest (slice_ax2 pred_vol k) (fst (snd ref), fst ref) = Inr layer"
    and s: "set_layer acc z layer = Inr acc'"
    and rest: "resize_layers pred_vol ref zs acc' = Inr r"
    by (auto split: sum.splits)
  from py_index_result [OF k] have "k < d2 pred_vol" by simp
  then have "labelled2 S (slice_ax2 pred_vol k)"
    using assms(1) by (simp add: slice_ax2_labelled)
  from cv2_resize_labelled [OF this l] have "labelled2 S layer" by simp
  from set_layer_labelled [OF Cons.prems(1) this s]
  have "labelled3 S acc'" "shape3 acc' = shape3 acc" by simp_all
  with Cons.IH [OF _ rest] show ?case by simp
qed

lemma np_zeros3_labelled:
  "0 \<in> S \<Longrightarrow> labelled3 S (np_zeros3 shp) \<and> shape3 (np_zeros3 shp) = shp"
  by (cases shp) (auto simp add: np_zeros3_def shape3_def intro!: labelled3_mk3)

lemma prediction_volume_of_raw_labelled:
  assumes "prediction_volume_of_raw env raw ref = Inr v"
    and "0 \<in> S"
    and "\<And>r k. resize_predicted_seg env raw = Inr r \<Longrightarrow> k < n3 r \<Longrightarrow> astype_int16 (int k) \<in> S"
  shows "labelled3 S v \<and> shape3 v = ref"
proof -
  from assms(1) obtain r pc where
    r: "resize_predicted_seg env raw = Inr r"
    and pc: "np_argmax_axis3 r = Inr pc"
    and v: "(if shape3 (moveaxis_0_2 pc) \<noteq> ref
             then resize_layers (moveaxis_0_2 pc) ref
                    [0..<min (d2 (moveaxis_0_2 pc)) (snd (snd ref))] (np_zeros3 ref)
             else Inr (moveaxis_0_2 pc)) = Inr v"
    by (auto simp add: prediction_volume_of_raw_def Let_def split: if_splits sum.splits)
  from np_argmax_axis3_labelled [OF pc assms(3) [OF r]] have "labelled3 S pc" by simp
  then have m: "labelled3 S (moveaxis_0_2 pc)" by (rule moveaxis_labelled)
  show ?thesis
  proof (cases "shape3 (moveaxis_0_2 pc) = ref")
    case True
    with v m show ?thesis by simp
  next
    case False
    with v have "resize_layers (moveaxis_0_2 pc) ref
        [0..<min (d2 (moveaxis_0_2 pc)) (snd (snd ref))] (np_zeros3 ref) = Inr v" by simp
    from resize_layers_labelled [OF m _ this] np_zeros3_labelled [OF assms(2), of ref]
    show ?thesis by simp
  qed
qed

lemma prediction_volume_of_raw_shape:
  assumes "prediction_volume_of_raw env raw ref = Inr v"
  shows "shape3 v = ref \<and> wf3 v"
  using prediction_volume_of_raw_labelled [where S = UNIV, OF assms] by (simp add: labelled3_def)

lemma prediction_volume_of_raw_class_labels:
  assumes "prediction_volume_of_raw env raw ref = Inr v"
    and "\<And>r. resize_predicted_seg env raw = Inr r \<Longrightarrow> n3 r = 4"
  shows "labels_in_range v"
proof -
  have "astype_int16 (int k) \<in> class_labels"
    if "resize_predicted_seg env raw = Inr r" "k < n3 r" for r k
  proof -
    have "k < 4" using assms(2) [OF that(1)] that(2) by simp
    then have "astype_int16 (int k) = int k" by (simp add: astype_int16_small)
    moreover have "int k \<in> class_labels" using \<open>k < 4\<close> by (auto simp add: class_labels_def)
    ultimately show ?thesis by simp
  qed
  from prediction_volume_of_raw_labelled [where S = class_labels, OF assms(1) _ this]
  show ?thesis by (simp add: labelled3_labels_in_range class_labels_def)
qed


lemma cv2_resize_ok:
  "0 < rows src \<Longrightarrow> 0 < cols src \<Longrightarrow> 0 < dw \<Longrightarrow> 0 < dh \<Longrightarrow>
   \<exists>r. cv2_resize_nearest src (dw, dh) = Inr r \<and> shape2 r = (dh, dw)"
  by (simp add: cv2_resize_nearest_def shape2_def)

lemma cv2_resize_fail:
  "rows src = 0 \<or> cols src = 0 \<or> dw = 0 \<or> dh = 0 \<Longrightarrow>
   cv2_resize_nearest src (dw, dh) = Inl CvError"
  by (auto simp add: cv2_resize_nearest_def)

lemma resize_layers_ok:
  assumes "0 < d0 pred_vol" "0 < d1 pred_vol" "0 < fst ref" "0 < fst (snd ref)"
    and "shape3 acc = ref"
    and "\<forall>z \<in> set zs. z < d2 pred_vol \<and> z < snd (snd ref)"
  shows "\<exists>r. resize_layers pred_vol ref zs acc = Inr r"
  using assms(5,6)
proof (induction zs arbitrary: acc)
  case Nil
  then show ?case by simp
next
  case (Cons z zs)
  have z: "z < d2 pred_vol" "z < snd (snd ref)" using Cons.prems(2) by simp_all
  have k: "py_index (d2 pred_vol) (int z) = Inr z"
    using z(1) by (simp add: py_index_def)
  have "0 < rows (slice_ax2 pred_vol z)" "0 < cols (slice_ax2 pred_vol z)"
    using assms(1,2) by (simp_all add: slice_ax2_def)
  from cv2_resize_ok [OF this assms(4,3)] obtain layer where
    l: "cv2_resize_nearest (slice_ax2 pred_vol z) (fst (snd ref), fst ref) = Inr layer"
       "shape2 layer = (fst ref, fst (snd ref))"
    by blast
  have dims: "d0 acc = fst ref" "d1 acc = fst (snd ref)" "d2 acc = snd (snd ref)"
    using Cons.prems(1) by (auto simp add: shape3_def)
  obtain acc' where s: "set_layer acc z layer = Inr acc'" "shape3 acc' = ref"
    using z(2) l(2) dims Cons.prems(1) by (simp add: set_layer_def shape3_def)
  from Cons.IH [OF s(2)] Cons.prems(2) obtain r where
    "resize_layers pred_vol ref zs acc' = Inr r" by auto
  then show ?case using k l(1) s(1) by simp
qed

lemma resize_layers_fail:
  assumes "d0 pred_vol = 0 \<or> d1 pred_vol = 0 \<or> fst ref = 0 \<or> fst (snd ref) = 0"
    and "0 < limit" "limit \<le> d2 pred_vol"
  shows "resize_layers pred_vol ref [0..<limit] acc = Inl CvError"
proof -
  have u: "[0..<limit] = 0 # [1..<limit]" using assms(2) by (simp add: upt_rec)
  have k: "py_index (d2 pred_vol) (int 0) = Inr 0"
    using assms(2,3) by (simp add: py_index_def)
  have "cv2_resize_nearest (slice_ax2 pred_vol 0) (fst (snd ref), fst ref) = Inl CvError"
    using assms(1) by (intro cv2_resize_fail) (auto simp add: slice_ax2_def)
  then show ?thesis using k unfolding u by simp
qed

lemma prediction_volume_of_raw_invalid:
  "length (shape raw) \<noteq> 4 \<or> shape raw ! 3 \<noteq> 4 \<Longrightarrow>
   prediction_volume_of_raw env raw ref = Inl (ValueError ''Invalid prediction shape'')"
  by (simp add: prediction_volume_of_raw_def)

lemma prediction_volume_of_raw_ok:
  assumes "length (shape raw) = 4" "shape raw ! 3 = 4"
    and "resize_predicted_seg env raw = Inr r" "0 < n3 r"
    and "(n1 r, n2 r, n0 r) = ref \<or> min (n0 r) (snd (snd ref)) = 0 \<or>
         (0 < n1 r \<and> 0 < n2 r \<and> 0 < fst ref \<and> 0 < fst (snd ref))"
  shows "\<exists>v. prediction_volume_of_raw env raw ref = Inr v"
proof -
  let ?pc = "mk3 (n0 r) (n1 r) (n2 r)
      (\<lambda>s i j. astype_int16 (int (argmax_list (map (\<lambda>c. at4 r s i j c) [0..<n3 r]))))"
  let ?pv = "moveaxis_0_2 ?pc"
  have pc: "np_argmax_axis3 r = Inr ?pc" using assms(4) by (simp add: np_argmax_axis3_def)
  have sh: "shape3 ?pv = (n1 r, n2 r, n0 r)" by (simp add: moveaxis_0_2_def shape3_def)
  have eq: "prediction_volume_of_raw env raw ref =
      (if shape3 ?pv \<noteq> ref
       then resize_layers ?pv ref [0..<min (d2 ?pv) (snd (snd ref))] (np_zeros3 ref)
       else Inr ?pv)"
    using assms(1,2,3) pc by (simp add: prediction_volume_of_raw_def Let_def)
  show ?thesis
  proof (cases "shape3 ?pv = ref")
    case True
    then show ?thesis using eq by simp
  next
    case False
    have d: "d0 ?pv = n1 r" "d1 ?pv = n2 r" "d2 ?pv = n0 r" by (simp_all add: moveaxis_0_2_def)
    from False sh assms(5) consider "min (n0 r) (snd (snd ref)) = 0"
      | "0 < n1 r \<and> 0 < n2 r \<and> 0 < fst ref \<and> 0 < fst (snd ref)" by auto
    then have "\<exists>v. resize_layers ?pv ref [0..<min (d2 ?pv) (snd (snd ref))] (np_zeros3 ref)
        = Inr v"
    proof cases
      case 1
      then show ?thesis by (simp add: d)
    next
      case 2
      have "shape3 (np_zeros3 ref) = ref"
        using np_zeros3_labelled [where S = UNIV, of ref] by simp
      then show ?thesis
        using 2 by (intro resize_layers_ok) (simp_all add: d)
    qed
    then show ?thesis using eq False by simp
  qed
qed

lemma prediction_volume_of_raw_cv:
  assumes "length (shape raw) = 4" "shape raw ! 3 = 4"
    and "resize_predicted_seg env raw = Inr r" "0 < n3 r"
    and "(n1 r, n2 r, n0 r) \<noteq> ref" "0 < min (n0 r) (snd (snd ref))"
    and "n1 r = 0 \<or> n2 r = 0 \<or> fst ref = 0 \<or> fst (snd ref) = 0"
  shows "prediction_volume_of_raw env raw ref = Inl CvError"
proof -
  let ?pc = "mk3 (n0 r) (n1 r) (n2 r)
      (\<lambda>s i j. astype_int16 (int (argmax_list (map (\<lambda>c. at4 r s i j c) [0..<n3 r]))))"
  let ?pv = "moveaxis_0_2 ?pc"
  have pc: "np_argmax_axis3 r = Inr ?pc" using assms(4) by (simp add: np_argmax_axis3_def)
  have sh: "shape3 ?pv = (n1 r, n2 r, n0 r)" by (simp add: moveaxis_0_2_def shape3_def)
  have d: "d0 ?pv = n1 r" "d1 ?pv = n2 r" "d2 ?pv = n0 r" by (simp_all add: moveaxis_0_2_def)
  have "prediction_volume_of_raw env raw ref =
      resize_layers ?pv ref [0..<min (d2 ?pv) (snd (snd ref))] (np_zeros3 ref)"
    using assms(1,2,3,5) pc sh by (simp add: prediction_volume_of_raw_def Let_def)
  also have "\<dots> = Inl CvError"
    using assms(6,7) by (intro resize_layers_fail) (simp_all add: d)
  finally show ?thesis .
qed

text \<open>
  C7, amended.  Let \<open>outcome\<close> be what \<open>predict_btn_click\<close> hands back.  An error of
  the model is passed on.  A missing raw prediction fails with the \<open>ValueError\<close>
  \<open>Failed to generate prediction\<close>; a raw prediction that is not of rank 4 with 4
  channels fails with the \<open>ValueError\<close> \<open>Invalid prediction shape\<close>.  There is no
  check of the reference shape.  With a valid raw prediction whose resized form has a
  channel, the call succeeds with a well-formed volume of the reference shape when the
  prediction already has that shape, or no layer is to be resized (one of the two depths
  is 0), or neither the prediction layers nor the reference layers are empty.  When a
  layer is to be resized and the prediction's or the reference's height or width is 0,
  the call fails with the error of OpenCV's resize.  Every volume returned has the
  reference shape.
\<close>

theorem get_prediction_volume_outcomes:
  assumes "predict_btn_click env (note_active_patient w p) (patient_root_of env p)
             = (outcome, w2)"
  shows "(\<forall>e. outcome = Inl e \<longrightarrow> get_prediction_volume env w p ref = (Inl e, w2)) \<and>
     (outcome = Inr None \<longrightarrow>
        get_prediction_volume env w p ref
          = (Inl (ValueError ''Failed to generate prediction''), w2)) \<and>
     (\<forall>raw. outcome = Inr (Some raw) \<and> (length (shape raw) \<noteq> 4 \<or> shape raw ! 3 \<noteq> 4) \<longrightarrow>
        get_prediction_volume env w p ref
          = (Inl (ValueError ''Invalid prediction shape''), w2)) \<and>
     (\<forall>raw r. outcome = Inr (Some raw) \<and> length (shape raw) = 4 \<and> shape raw ! 3 = 4 \<and>
        resize_predicted_seg env raw = Inr r \<and> 0 < n3 r \<and>
        ((n1 r, n2 r, n0 r) = ref \<or> min (n0 r) (snd (snd ref)) = 0 \<or>
         (0 < n1 r \<and> 0 < n2 r \<and> 0 < fst ref \<and> 0 < fst (snd ref))) \<longrightarrow>
        (\<exists>v. get_prediction_volume env w p ref = (Inr v, w2) \<and> shape3 v = ref \<and> wf3 v)) \<and>
     (\<forall>raw r. outcome = Inr (Some raw) \<and> length (shape raw) = 4 \<and> shape raw ! 3 = 4 \<and>
        resize_predicted_seg env raw = Inr r \<and> 0 < n3 r \<and>
        (n1 r, n2 r, n0 r) \<noteq> ref \<and> 0 < min (n0 r) (snd (snd ref)) \<and>
        (n1 r = 0 \<or> n2 r = 0 \<or> fst ref = 0 \<or> fst (snd ref) = 0) \<longrightarrow>
        get_prediction_volume env w p ref = (Inl CvError, w2)) \<and>
     (\<forall>v w'. get_prediction_volume env w p ref = (Inr v, w') \<longrightarrow> shape3 v = ref \<and> wf3 v)"
proof -
  have g: "get_prediction_volume env w p ref =
      (case outcome of
         Inl e \<Rightarrow> (Inl e, w2)
       | Inr None \<Rightarrow> (Inl (ValueError ''Failed to generate prediction''), w2)
       | Inr (Some raw) \<Rightarrow> (prediction_volume_of_raw env raw ref, w2))"
    using assms by (simp add: get_prediction_volume_def Let_def)
  have 1: "\<forall>e. outcome = Inl e \<longrightarrow> get_prediction_volume env w p ref = (Inl e, w2)"
    by (simp add: g)
  have 2: "outcome = Inr None \<longrightarrow>
        get_prediction_volume env w p ref
          = (Inl (ValueError ''Failed to generate prediction''), w2)"
    by (simp add: g)
  have 3: "\<forall>raw. outcome = Inr (Some raw) \<and> (length (shape raw) \<noteq> 4 \<or> shape raw ! 3 \<noteq> 4) \<longrightarrow>
        get_prediction_volume env w p ref
          = (Inl (ValueError ''Invalid prediction shape''), w2)"
    using prediction_volume_of_raw_invalid [of _ env ref] by (auto simp add: g)
  have 6: "\<forall>v w'. get_prediction_volume env w p ref = (Inr v, w') \<longrightarrow> shape3 v = ref \<and> wf3 v"
    using prediction_volume_of_raw_shape [of env _ ref]
    by (auto simp add: g split: sum.splits option.splits)
  have 4: "\<forall>raw r. outcome = Inr (Some raw) \<and> length (shape raw) = 4 \<and> shape raw ! 3 = 4 \<and>
        resize_predicted_seg env raw = Inr r \<and> 0 < n3 r \<and>
        ((n1 r, n2 r, n0 r) = ref \<or> min (n0 r) (snd (snd ref)) = 0 \<or>
         (0 < n1 r \<and> 0 < n2 r \<and> 0 < fst ref \<and> 0 < fst (snd ref))) \<longrightarrow>
        (\<exists>v. get_prediction_volume env w p ref = (Inr v, w2) \<and> shape3 v = ref \<and> wf3 v)"
  proof (intro allI impI)
    fix raw r
    assume a: "outcome = Inr (Some raw) \<and> length (shape raw) = 4 \<and> shape raw ! 3 = 4 \<and>
        resize_predicted_seg env raw = Inr r \<and> 0 < n3 r \<and>
        ((n1 r, n2 r, n0 r) = ref \<or> min (n0 r) (snd (snd ref)) = 0 \<or>
         (0 < n1 r \<and> 0 < n2 r \<and> 0 < fst ref \<and> 0 < fst (snd ref)))"
    then obtain v where v: "prediction_volume_of_raw env raw ref = Inr v"
      using prediction_volume_of_raw_ok [of raw env r ref] by blast
    then have "get_prediction_volume env w p ref = (Inr v, w2)" using a by (simp add: g)
    then show "\<exists>v. get_prediction_volume env w p ref = (Inr v, w2) \<and> shape3 v = ref \<and> wf3 v"
      using prediction_volume_of_raw_shape [OF v] by blast
  qed
  have 5: "\<forall>raw r. outcome = Inr (Some raw) \<and> length (shape raw) = 4 \<and> shape raw ! 3 = 4 \<and>
        resize_predicted_seg env raw = Inr r \<and> 0 < n3 r \<and>
        (n1 r, n2 r, n0 r) \<noteq> ref \<and> 0 < min (n0 r) (snd (snd ref)) \<and>
        (n1 r = 0 \<or> n2 r = 0 \<or> fst ref = 0 \<or> fst (snd ref) = 0) \<longrightarrow>
        get_prediction_volume env w p ref = (Inl CvError, w2)"
    using prediction_volume_of_raw_cv [of _ env _ ref] by (auto simp add: g)
  show ?thesis using 1 2 3 4 5 6 by blast
qed

text \<open>
  C10 (labels).  If the resize step keeps the four channels of a valid raw prediction,
  every volume returned by \<open>get_prediction_volume\<close> is well formed, has the reference
  shape and holds only the labels 0, 1, 2 and 3.
\<close>

theorem prediction_volume_labels:
  assumes "get_prediction_volume env w p ref = (Inr v, w')"
    and "\<forall>raw r. length (shape raw) = 4 \<and> shape raw ! 3 = 4 \<and>
           resize_predicted_seg env raw = Inr r \<longrightarrow> n3 r = 4"
  shows "labels_in_range v \<and> set (vdata v) \<subseteq> {0, 1, 2, 3} \<and> wf3 v \<and> shape3 v = ref"
proof -
  from get_prediction_volume_success [OF assms(1)] obtain raw where
    v: "prediction_volume_of_raw env raw ref = Inr v" by blast
  then have valid: "length (shape raw) = 4 \<and> shape raw ! 3 = 4"
    by (auto simp add: prediction_volume_of_raw_def split: if_splits)
  have "labels_in_range v"
    using assms(2) valid by (intro prediction_volume_of_raw_class_labels [OF v]) blast
  then show ?thesis
    using prediction_volume_of_raw_shape [OF v] by (auto simp add: labels_in_range_def)
qed

subsection \<open>The prediction pipeline on the small instance\<close>

lemma first_request_ex:
  "get_prediction_volume env_ex world0 ''P1'' (2, 2, 1)
     = (Inr \<lparr>d0 = 2, d1 = 2, d2 = 1, vdata = [0, 1, 2, 3]\<rparr>, world1)"
  by code_simp

lemma click_ex:
  "predict_btn_click env_ex (note_active_patient world0 ''P1'') (patient_root_of env_ex ''P1'')
     = (Inr (Some raw_ex), world1)"
  by code_simp

lemma click_bad_ex:
  "predict_btn_click env_bad_ex (note_active_patient world0 ''P1'')
       (patient_root_of env_bad_ex ''P1'')
     = (Inr (Some \<lparr>shape = [2, 2], buf = [1, 2, 3, 4]\<rparr>),
        world1\<lparr>session_state := (session_state world1)
                  \<lparr>pred_seg := Some \<lparr>shape = [2, 2], buf = [1, 2, 3, 4]\<rparr>\<rparr>\<rparr>)"
  by code_simp

lemma resize_ex: "resize_predicted_seg env_ex raw_ex
     = Inr \<lparr>n0 = 1, n1 = 2, n2 = 2, n3 = 4, adata = buf raw_ex\<rparr>"
  by (simp add: env_ex_def reshape4_def raw_ex_def)

lemma root_ex: "patient_root_of env_ex ''P2'' = ''P2/P2''"
  by (simp add: env_ex_def)

lemma calls_world1: "model_calls world1 = [''P1/P1'']"
  by (simp add: world1_def)

theorem prediction_cached_per_patient_witness:
  "get_prediction_volume env_ex world0 ''P1'' (2, 2, 1)
     = (Inr \<lparr>d0 = 2, d1 = 2, d2 = 1, vdata = [0, 1, 2, 3]\<rparr>, world1) \<and>
   get_prediction_volume env_ex world1 ''P1'' (2, 2, 1)
     = (Inr \<lparr>d0 = 2, d1 = 2, d2 = 1, vdata = [0, 1, 2, 3]\<rparr>, world1) \<and>
   model_calls world1 = [''P1/P1''] \<and>
   model_calls (snd (get_prediction_volume env_ex world1 ''P2'' (2, 2, 1)))
     = [''P1/P1'', ''P2/P2'']"
proof -
  note t = prediction_cached_per_patient [OF first_request_ex]
  note again = t [THEN conjunct1]
  note switch = t [THEN conjunct2, THEN conjunct2, THEN conjunct2, THEN conjunct1, rule_format]
  have "''P2'' \<noteq> ''P1'' \<and>
     get_prediction_volume env_ex world1 ''P2'' (2, 2, 1)
       = (fst (get_prediction_volume env_ex world1 ''P2'' (2, 2, 1)),
          snd (get_prediction_volume env_ex world1 ''P2'' (2, 2, 1)))"
    by simp
  from switch [OF this, THEN conjunct1]
  have sw: "model_calls (snd (get_prediction_volume env_ex world1 ''P2'' (2, 2, 1)))
      = [''P1/P1'', ''P2/P2'']"
    by (simp only: root_ex calls_world1 append.simps)
  show ?thesis
    by (intro conjI first_request_ex again calls_world1 sw)
qed


theorem get_prediction_volume_outcomes_witness:
  "(\<exists>v. get_prediction_volume env_ex world0 ''P1'' (3, 4, 2) = (Inr v, world1) \<and>
        shape3 v = (3, 4, 2) \<and> wf3 v) \<and>
   (\<exists>v. get_prediction_volume env_ex world0 ''P1'' (5, 0, 0) = (Inr v, world1) \<and>
        shape3 v = (5, 0, 0) \<and> wf3 v) \<and>
   get_prediction_volume env_ex world0 ''P1'' (0, 2, 1) = (Inl CvError, world1) \<and>
   fst (get_prediction_volume env_bad_ex world0 ''P1'' (2, 2, 1))
     = Inl (ValueError ''Invalid prediction shape'')"
proof -
  note t = get_prediction_volume_outcomes [OF click_ex]
  note ok = t [THEN conjunct2, THEN conjunct2, THEN conjunct2, THEN conjunct1, rule_format]
  note cv = t [THEN conjunct2, THEN conjunct2, THEN conjunct2, THEN conjunct2, THEN conjunct1,
               rule_format]
  note bad = get_prediction_volume_outcomes [OF click_bad_ex, THEN conjunct2, THEN conjunct2,
               THEN conjunct1, rule_format]
  have v: "length (shape raw_ex) = 4" "shape raw_ex ! 3 = 4" by (simp_all add: raw_ex_def)
  let ?r = "\<lparr>n0 = 1, n1 = 2, n2 = 2, n3 = 4, adata = buf raw_ex\<rparr>"
  have 1: "\<exists>v. get_prediction_volume env_ex world0 ''P1'' (3, 4, 2) = (Inr v, world1) \<and>
        shape3 v = (3, 4, 2) \<and> wf3 v"
    by (rule ok [of raw_ex ?r]) (simp add: v resize_ex)
  have 2: "\<exists>v. get_prediction_volume env_ex world0 ''P1'' (5, 0, 0) = (Inr v, world1) \<and>
        shape3 v = (5, 0, 0) \<and> wf3 v"
    by (rule ok [of raw_ex ?r]) (simp add: v resize_ex)
  have 3: "get_prediction_volume env_ex world0 ''P1'' (0, 2, 1) = (Inl CvError, world1)"
    by (rule cv [of raw_ex ?r]) (simp add: v resize_ex)
  have "get_prediction_volume env_bad_ex world0 ''P1'' (2, 2, 1)
     = (Inl (ValueError ''Invalid prediction shape''),
        world1\<lparr>session_state := (session_state world1)
                  \<lparr>pred_seg := Some \<lparr>shape = [2, 2], buf = [1, 2, 3, 4]\<rparr>\<rparr>\<rparr>)"
    by (rule bad [of "\<lparr>shape = [2, 2], buf = [1, 2, 3, 4]\<rparr>"]) simp
  then have 4: "fst (get_prediction_volume env_bad_ex world0 ''P1'' (2, 2, 1))
     = Inl (ValueError ''Invalid prediction shape'')"
    by (simp only: fst_conv)
  show ?thesis by (intro conjI 1 2 3 4)
qed

text \<open>
  C7, as stated, fails: with the reference shape (2, 2, 0), which has a zero extent, the
  call returns an empty volume and no error.
\<close>

theorem reference_shape_zero_counterexample:
  "fst (get_prediction_volume env_ex world0 ''P1'' (2, 2, 0))
     = Inr \<lparr>d0 = 2, d1 = 2, d2 = 0, vdata = []\<rparr>"
  by code_simp

lemma second_request_ex:
  "get_prediction_volume env_ex world0 ''P1'' (3, 4, 2)
     = (Inr \<lparr>d0 = 3, d1 = 4, d2 = 2,
             vdata = [0, 0, 0, 0, 1, 0, 1, 0, 0, 0, 0, 0, 1, 0, 1, 0, 2, 0, 2, 0, 3, 0, 3, 0]\<rparr>,
        world1)"
  by code_simp

theorem prediction_volume_labels_witness:
  "get_prediction_volume env_ex world0 ''P1'' (3, 4, 2)
     = (Inr \<lparr>d0 = 3, d1 = 4, d2 = 2,
             vdata = [0, 0, 0, 0, 1, 0, 1, 0, 0, 0, 0, 0, 1, 0, 1, 0, 2, 0, 2, 0, 3, 0, 3, 0]\<rparr>,
        world1) \<and>
   labels_in_range \<lparr>d0 = 3, d1 = 4, d2 = 2,
             vdata = [0, 0, 0, 0, 1, 0, 1, 0, 0, 0, 0, 0, 1, 0, 1, 0, 2, 0, 2, 0, 3, 0, 3, 0]\<rparr>"
proof -
  have h: "\<forall>raw r. length (shape raw) = 4 \<and> shape raw ! 3 = 4 \<and>
           resize_predicted_seg env_ex raw = Inr r \<longrightarrow> n3 r = 4"
    by (auto simp add: env_ex_def reshape4_def split: list.splits)
  note t = prediction_volume_labels [OF second_request_ex h]
  show ?thesis by (intro conjI second_request_ex t [THEN conjunct1])
qed

subsection \<open>Sweep\<close>

lemma create_slicer_function_num:
  "fst (create_slicer_function img pred_vol plane) = plane_extent plane img"
  by (simp add: create_slicer_function_def plane_extent_def)

lemma stride_pos: "0 < fst (get_gif_animation_params plane n)"
  by (simp add: get_gif_animation_params_def max_def)

lemma py_range_empty: "py_range 0 stride = []"
  by (cases stride) (simp_all add: py_range_def)

lemma length_py_range: "length (py_range n stride) = (n + stride - 1) div stride"
  by (simp add: py_range_def)

lemma py_range_nonempty: "0 < n \<Longrightarrow> 0 < stride \<Longrightarrow> py_range n stride \<noteq> []"
proof -
  assume a: "0 < n" "0 < stride"
  then have "stride \<le> n + stride - 1" by simp
  then have "0 < (n + stride - 1) div stride" using a(2) by (simp add: div_greater_zero_iff)
  then show ?thesis using length_py_range [of n stride] by auto
qed

lemma py_range_bound:
  assumes "0 < stride" "i \<in> set (py_range n stride)"
  shows "i < n"
proof -
  from assms(2) obtain k where k: "k < (n + stride - 1) div stride" "i = k * stride"
    by (auto simp add: py_range_def)
  then have "Suc k \<le> (n + stride - 1) div stride" by simp
  then have "Suc k * stride \<le> n + stride - 1"
    using assms(1) by (simp add: less_eq_div_iff_mult_less_eq)
  then show ?thesis using k(2) assms(1) by simp
qed

lemma sweep_frames_length:
  "sweep_frames venv slicer cls idxs frames = Inr out \<Longrightarrow>
   length out = length frames + length idxs"
proof (induction idxs arbitrary: frames)
  case Nil
  then show ?case by simp
next
  case (Cons idx idxs)
  from Cons.prems obtain frame where
    "sweep_frames venv slicer cls idxs (frames @ [frame]) = Inr out"
    by (auto split: sum.splits prod.splits)
  from Cons.IH [OF this] show ?case by simp
qed


lemma slicer_in_range:
  assumes "shape3 pred_vol = shape3 img" "i < plane_extent plane img"
  shows "snd (create_slicer_function img pred_vol plane) i
           = Inr (plane_slice plane img i, plane_slice plane pred_vol i) \<and>
         shape2 (plane_slice plane pred_vol i) = shape2 (plane_slice plane img i)"
proof -
  have d: "d0 pred_vol = d0 img" "d1 pred_vol = d1 img" "d2 pred_vol = d2 img"
    using assms(1) by (simp_all add: shape3_def)
  have s: "shape2 (plane_slice plane pred_vol i) = shape2 (plane_slice plane img i)"
    by (simp add: shape2_plane_slice d)
  have "snd (create_slicer_function img pred_vol plane) i
           = Inr (plane_slice plane img i, plane_slice plane pred_vol i)"
  proof (cases "plane = ''Axial''")
    case True
    then show ?thesis
      using assms(2) by (simp add: create_slicer_function_def plane_extent_def plane_slice_def
            py_index_def d)
  next
    case False
    show ?thesis
    proof (cases "plane = ''Sagittal''")
      case True
      then show ?thesis
        using assms(2) by (simp add: create_slicer_function_def plane_extent_def
              plane_slice_def py_index_def d)
    next
      case other: False
      then show ?thesis
        using False assms(2) by (simp add: create_slicer_function_def plane_extent_def
              plane_slice_def py_index_def d)
    qed
  qed
  then show ?thesis using s by simp
qed

lemma filter_total:
  assumes "cls = ''All'' \<or> cls = ''None'' \<or> (\<exists>c. py_int cls = Inr c)"
  shows "\<exists>r. filter_prediction_by_class b cls = Inr r"
  using assms by (auto simp add: filter_prediction_by_class_def)

lemma sweep_frames_ok:
  assumes "\<forall>i \<in> set idxs. \<exists>a b. slicer i = Inr (a, b) \<and> shape2 b = shape2 a"
    and "cls = ''All'' \<or> cls = ''None'' \<or> (\<exists>c. py_int cls = Inr c)"
    and "\<forall>a b. \<exists>f. render_frame venv a b = Inr f"
  shows "\<exists>out. sweep_frames venv slicer cls idxs frames = Inr out"
  using assms(1)
proof (induction idxs arbitrary: frames)
  case Nil
  then show ?case by simp
next
  case (Cons idx idxs)
  from Cons.prems obtain a b where ab: "slicer idx = Inr (a, b)" "shape2 b = shape2 a"
    by auto
  have m: "ensure_shapes_match a b = Inr b" using ab(2) by (simp add: ensure_shapes_match_def)
  from filter_total [OF assms(2)] obtain r where r: "filter_prediction_by_class b cls = Inr r"
    by blast
  from assms(3) obtain f where f: "render_frame venv a r = Inr f" by blast
  from Cons.IH [of "frames @ [f]"] Cons.prems obtain out where
    "sweep_frames venv slicer cls idxs (frames @ [f]) = Inr out" by auto
  then show ?case using ab(1) m r f by simp
qed

lemma get_gif_sweep:
  assumes "load_modality venv patient_path modality = Inr img"
    and "get_prediction_volume env w patient_path (shape3 img) = (Inr pred_vol, w1)"
  shows "get_gif env venv w patient_path modality plane cls =
     (case sweep_frames venv (snd (create_slicer_function img pred_vol plane)) cls
             (py_range (plane_extent plane img)
                (fst (get_gif_animation_params plane (plane_extent plane img)))) [] of
        Inl e \<Rightarrow> (Unhandled e, w1)
      | Inr frames \<Rightarrow>
          if length frames = 0
          then (JsonError 500 (NoFramesGenerated (plane_extent plane img)), w1)
          else (JsonGif frames (snd (get_gif_animation_params plane (plane_extent plane img))),
                w1))"
proof -
  obtain slicer where c: "create_slicer_function img pred_vol plane
      = (plane_extent plane img, slicer)"
    using create_slicer_function_num [of img pred_vol plane]
    by (cases "create_slicer_function img pred_vol plane") simp
  obtain stride fps where p: "get_gif_animation_params plane (plane_extent plane img)
      = (stride, fps)"
    by (cases "get_gif_animation_params plane (plane_extent plane img)")
  show ?thesis using assms by (simp add: get_gif_def Let_def c p cong: sum.case_cong if_cong)
qed

text \<open>
  C9 (empty sweep).  Let the volume load and the prediction be available.  If the
  plane's axis has extent 0, so that no index is sampled, \<open>get_gif\<close> answers with the
  explicit error \<open>No frames generated\<close> (status 500).  If the extent is positive, it
  answers either with an exception raised while a frame was made or with an animation
  of as many frames as sampled indices, at least one; it never answers with an empty
  animation.  With a class filter that is \<open>All\<close>, \<open>None\<close> or a number and a renderer
  that does not fail, the answer is an animation.  In terms of the loop: a completed
  loop with no frame gives the explicit error, a completed loop with at least one frame
  gives the animation and no error.
\<close>

theorem get_gif_empty_sweep_is_error:
  assumes "load_modality venv patient_path modality = Inr img"
    and "get_prediction_volume env w patient_path (shape3 img) = (Inr pred_vol, w1)"
  shows "(plane_extent plane img = 0 \<longrightarrow>
            get_gif env venv w patient_path modality plane cls
              = (JsonError 500 (NoFramesGenerated 0), w1)) \<and>
     (0 < plane_extent plane img \<longrightarrow>
        (\<exists>e. get_gif env venv w patient_path modality plane cls = (Unhandled e, w1)) \<or>
        (\<exists>frames. get_gif env venv w patient_path modality plane cls
              = (JsonGif frames (snd (get_gif_animation_params plane (plane_extent plane img))),
                 w1) \<and>
           frames \<noteq> [] \<and>
           length frames
             = length (py_range (plane_extent plane img)
                 (fst (get_gif_animation_params plane (plane_extent plane img)))))) \<and>
     (0 < plane_extent plane img \<and>
      (cls = ''All'' \<or> cls = ''None'' \<or> (\<exists>c. py_int cls = Inr c)) \<and>
      (\<forall>a b. \<exists>f. render_frame venv a b = Inr f) \<longrightarrow>
        (\<exists>frames fps. get_gif env venv w patient_path modality plane cls
              = (JsonGif frames fps, w1) \<and> frames \<noteq> [])) \<and>
     (\<forall>frames.
        sweep_frames venv (snd (create_slicer_function img pred_vol plane)) cls
          (py_range (plane_extent plane img)
             (fst (get_gif_animation_params plane (plane_extent plane img)))) [] = Inr frames \<longrightarrow>
        get_gif env venv w patient_path modality plane cls
          = (if frames = []
             then (JsonError 500 (NoFramesGenerated (plane_extent plane img)), w1)
             else (JsonGif frames
                     (snd (get_gif_animation_params plane (plane_extent plane img))), w1)))"
proof -
  let ?n = "plane_extent plane img"
  let ?stride = "fst (get_gif_animation_params plane ?n)"
  let ?fps = "snd (get_gif_animation_params plane ?n)"
  let ?slicer = "snd (create_slicer_function img pred_vol plane)"
  let ?sweep = "sweep_frames venv ?slicer cls (py_range ?n ?stride) []"
  note g = get_gif_sweep [OF assms, of plane cls]
  have zero: "?n = 0 \<longrightarrow> get_gif env venv w patient_path modality plane cls
              = (JsonError 500 (NoFramesGenerated 0), w1)"
    by (simp add: g py_range_empty)
  have pos: "(\<exists>e. get_gif env venv w patient_path modality plane cls = (Unhandled e, w1)) \<or>
        (\<exists>frames. get_gif env venv w patient_path modality plane cls
              = (JsonGif frames ?fps, w1) \<and> frames \<noteq> [] \<and>
           length frames = length (py_range ?n ?stride))"
    if n: "0 < ?n"
  proof (cases ?sweep)
    case (Inl e)
    then show ?thesis by (simp add: g)
  next
    case (Inr frames)
    from sweep_frames_length [OF Inr] have l: "length frames = length (py_range ?n ?stride)"
      by simp
    moreover have "py_range ?n ?stride \<noteq> []"
      using n stride_pos by (rule py_range_nonempty)
    ultimately have ne: "frames \<noteq> []" by auto
    have "get_gif env venv w patient_path modality plane cls = (JsonGif frames ?fps, w1)"
      using ne by (simp add: g Inr)
    then show ?thesis using ne l by blast
  qed
  have ok: "\<exists>frames fps. get_gif env venv w patient_path modality plane cls
              = (JsonGif frames fps, w1) \<and> frames \<noteq> []"
    if a: "0 < ?n \<and> (cls = ''All'' \<or> cls = ''None'' \<or> (\<exists>c. py_int cls = Inr c)) \<and>
      (\<forall>a b. \<exists>f. render_frame venv a b = Inr f)"
  proof -
    from get_prediction_volume_success [OF assms(2)] obtain raw where
      "prediction_volume_of_raw env raw (shape3 img) = Inr pred_vol" by blast
    then have sh: "shape3 pred_vol = shape3 img"
      using prediction_volume_of_raw_shape by blast
    have "\<forall>i \<in> set (py_range ?n ?stride).
        \<exists>a b. ?slicer i = Inr (a, b) \<and> shape2 b = shape2 a"
      using slicer_in_range [OF sh] py_range_bound [OF stride_pos] by blast
    from sweep_frames_ok [OF this] a obtain out where out: "?sweep = Inr out" by blast
    from sweep_frames_length [OF out] have "length out = length (py_range ?n ?stride)" by simp
    moreover have "py_range ?n ?stride \<noteq> []"
      using a stride_pos by (intro py_range_nonempty) simp_all
    ultimately have ne: "out \<noteq> []" by auto
    have "get_gif env venv w patient_path modality plane cls = (JsonGif out ?fps, w1)"
      using ne by (simp add: g out)
    then show ?thesis using ne by blast
  qed
  have loop: "\<forall>frames. ?sweep = Inr frames \<longrightarrow>
        get_gif env venv w patient_path modality plane cls
          = (if frames = [] then (JsonError 500 (NoFramesGenerated ?n), w1)
             else (JsonGif frames ?fps, w1))"
    by (simp add: g)
  show ?thesis using zero pos ok loop by blast
qed


lemma load_flat_ex:
  "load_modality venv_flat_ex ''P1'' ''FLAIR'' = Inr (mk3 2 2 0 (\<lambda>i j k. 0))"
  by (simp add: venv_flat_ex_def)

lemma load_ex:
  "load_modality venv_ex ''P1'' ''FLAIR'' = Inr (mk3 2 2 3 (\<lambda>i j k. of_nat (i + j + k)))"
  by (simp add: venv_ex_def)

lemma pred_flat_ex:
  "get_prediction_volume env_ex world0 ''P1'' (shape3 (mk3 2 2 0 (\<lambda>i j k. 0 :: rat)))
     = (Inr \<lparr>d0 = 2, d1 = 2, d2 = 0, vdata = []\<rparr>, world1)"
  by code_simp

lemma pred_sweep_ex:
  "get_prediction_volume env_ex world0 ''P1''
       (shape3 (mk3 2 2 3 (\<lambda>i j k. of_nat (i + j + k) :: rat)))
     = (Inr \<lparr>d0 = 2, d1 = 2, d2 = 3, vdata = [0, 0, 0, 1, 0, 0, 2, 0, 0, 3, 0, 0]\<rparr>, world1)"
  by code_simp

theorem get_gif_empty_sweep_is_error_witness:
  "get_gif env_ex venv_flat_ex world0 ''P1'' ''FLAIR'' ''Axial'' ''All''
     = (JsonError 500 (NoFramesGenerated 0), world1) \<and>
   (\<exists>frames fps. get_gif env_ex venv_ex world0 ''P1'' ''FLAIR'' ''Axial'' ''All''
        = (JsonGif frames fps, world1) \<and> frames \<noteq> [])"
proof -
  note flat = get_gif_empty_sweep_is_error [OF load_flat_ex pred_flat_ex,
      of "''Axial''" "''All''", THEN conjunct1, rule_format]
  note full = get_gif_empty_sweep_is_error [OF load_ex pred_sweep_ex,
      of "''Axial''" "''All''", THEN conjunct2, THEN conjunct2, THEN conjunct1, rule_format]
  have 1: "get_gif env_ex venv_flat_ex world0 ''P1'' ''FLAIR'' ''Axial'' ''All''
     = (JsonError 500 (NoFramesGenerated 0), world1)"
    by (rule flat) (simp add: plane_extent_def mk3_def)
  have 2: "\<exists>frames fps. get_gif env_ex venv_ex world0 ''P1'' ''FLAIR'' ''Axial'' ''All''
        = (JsonGif frames fps, world1) \<and> frames \<noteq> []"
    by (rule full) (simp add: plane_extent_def mk3_def venv_ex_def)
  show ?thesis by (intro conjI 1 2)
qed

end
